theory Spec2Isabelle
  imports Main
begin

section \<open>Python values, exceptions and the observable world\<close>

text \<open>
  The values that \<^verbatim>\<open>json.load\<close> can return. A Python dict is an association list
  (insertion order kept); a float is kept as the text of its literal.
\<close>

datatype json =
    JNull
  | JBool bool
  | JInt int
  | JFloat string
  | JString string
  | JArray "json list"
  | JObject "(string \<times> json) list"

text \<open>
  An exception instance: the name of its class followed by the names of its base classes
  below \<^verbatim>\<open>Exception\<close>, and the text of \<^verbatim>\<open>str(e)\<close>. Every modelled
  exception derives from \<^verbatim>\<open>Exception\<close>, so \<^verbatim>\<open>except Exception\<close> catches all of them.
\<close>

datatype exn = Exn (exn_mro: "string list") (exn_str: string)

definition isinstance :: "exn \<Rightarrow> string \<Rightarrow> bool" where
  "isinstance e cls = (cls \<in> set (exn_mro e))"

datatype level = INFO | WARNING | ERROR

text \<open>A log record keeps the format string and its arguments, as \<^verbatim>\<open>LogRecord\<close> does.\<close>

datatype log_arg =
    AStr string
  | AVal json
  | AList "string list"
  | AInt int
  | AExn exn

type_synonym log_record = "level \<times> string \<times> log_arg list"

text \<open>Calls that leave the process: file opens, the tracking service, the clock.\<close>

datatype call =
    OpenFile string string
  | NewClient
  | ListArtifacts json
  | RegisterModel string string
  | TransitionStage string string string bool
  | StartRun
  | EndRun string
  | LogModel string string
  | SearchModelVersions string
  | Sleep nat

record artifact =
  art_path :: string
  art_is_dir :: bool

record model_version =
  mv_name :: string
  mv_version :: string

record run =
  run_info_run_id :: string

datatype io_op = IoOpen string | IoRead | IoWrite

text \<open>
  The world the program acts on: the regular files, the log, standard output, the trace
  of outside calls and the state of the tracking service (of a type \<open>'s\<close> we know
  nothing about).
\<close>

record 's world =
  files :: "string \<Rightarrow> string option"
  log :: "log_record list"
  stdout :: "string list"
  calls :: "call list"
  service :: 's

text \<open>
  Everything the program imports: the operating system's refusals, the \<^verbatim>\<open>json\<close> and
  \<^verbatim>\<open>pickle\<close> modules, the builtins \<^verbatim>\<open>str\<close>, \<^verbatim>\<open>repr\<close> and \<^verbatim>\<open>int\<close>, and
  the operations of the tracking client, each of which may raise and may change the
  service. \<open>'m\<close> is the type of an unpickled model object.
\<close>

record ('s, 'm) env =
  io_fault :: "io_op \<Rightarrow> string \<Rightarrow> exn option"
  json_loads :: "string \<Rightarrow> exn + json"
  json_dumps :: "nat \<Rightarrow> json \<Rightarrow> string"
  pickle_loads :: "string \<Rightarrow> exn + 'm"
  builtin_str :: "json \<Rightarrow> string"
  builtin_repr :: "string \<Rightarrow> string"
  builtin_int :: "string \<Rightarrow> exn + int"
  new_client :: "'s \<Rightarrow> (exn + unit) \<times> 's"
  list_artifacts :: "json \<Rightarrow> 's \<Rightarrow> (exn + artifact list) \<times> 's"
  register_model :: "string \<Rightarrow> string \<Rightarrow> 's \<Rightarrow> (exn + model_version) \<times> 's"
  transition_model_version_stage ::
    "string \<Rightarrow> string \<Rightarrow> string \<Rightarrow> bool \<Rightarrow> 's \<Rightarrow> (exn + unit) \<times> 's"
  start_run :: "'s \<Rightarrow> (exn + run) \<times> 's"
  end_run :: "string \<Rightarrow> 's \<Rightarrow> (exn + unit) \<times> 's"
  log_model :: "'m \<Rightarrow> string \<Rightarrow> string \<Rightarrow> 's \<Rightarrow> (exn + unit) \<times> 's"
  search_model_versions :: "string \<Rightarrow> 's \<Rightarrow> (exn + model_version list) \<times> 's"

section \<open>Sequencing statements that may raise\<close>

type_synonym ('a, 's) stmt = "'s world \<Rightarrow> (exn + 'a) \<times> 's world"

definition ret :: "'a \<Rightarrow> ('a, 's) stmt" where
  "ret v w = (Inr v, w)"

definition raise :: "exn \<Rightarrow> ('a, 's) stmt" where
  "raise e w = (Inl e, w)"

definition lift :: "exn + 'a \<Rightarrow> ('a, 's) stmt" where
  "lift r w = (r, w)"

definition effect :: "('s world \<Rightarrow> 's world) \<Rightarrow> (unit, 's) stmt" where
  "effect f w = (Inr (), f w)"

definition then_do :: "('a, 's) stmt \<Rightarrow> ('a \<Rightarrow> ('b, 's) stmt) \<Rightarrow> ('b, 's) stmt" where
  "then_do m f w = (case m w of (Inl e, w1) \<Rightarrow> (Inl e, w1) | (Inr x, w1) \<Rightarrow> f x w1)"

text \<open>\<^verbatim>\<open>try: body  except Exception as e: handler(e); raise\<close>\<close>

definition try_except :: "('a, 's) stmt \<Rightarrow> (exn \<Rightarrow> 's world \<Rightarrow> 's world) \<Rightarrow> ('a, 's) stmt" where
  "try_except body handler w =
     (case body w of (Inl e, w1) \<Rightarrow> (Inl e, handler e w1) | (Inr v, w1) \<Rightarrow> (Inr v, w1))"

section \<open>Primitive effects\<close>

definition logging :: "level \<Rightarrow> string \<Rightarrow> log_arg list \<Rightarrow> 's world \<Rightarrow> 's world" where
  "logging lvl fmt args w = w\<lparr>log := log w @ [(lvl, fmt, args)]\<rparr>"

definition print :: "string \<Rightarrow> 's world \<Rightarrow> 's world" where
  "print line w = w\<lparr>stdout := stdout w @ [line]\<rparr>"

definition record_call :: "call \<Rightarrow> 's world \<Rightarrow> 's world" where
  "record_call c w = w\<lparr>calls := calls w @ [c]\<rparr>"

definition client_call :: "call \<Rightarrow> ('s \<Rightarrow> (exn + 'a) \<times> 's) \<Rightarrow> ('a, 's) stmt" where
  "client_call c op w =
     (case op (service w) of (r, s1) \<Rightarrow> (r, w\<lparr>calls := calls w @ [c], service := s1\<rparr>))"

definition sq :: string where
  "sq = [CHR 0x27]"

definition file_not_found :: "('s, 'm) env \<Rightarrow> string \<Rightarrow> exn" where
  "file_not_found env p =
     Exn [''FileNotFoundError'', ''OSError'']
         (''[Errno 2] No such file or directory: '' @ builtin_repr env p)"

text \<open>
  \<^verbatim>\<open>with open(p, mode) as f\<close> for a read mode, followed by reading all of \<^verbatim>\<open>f\<close>:
  the operating system may refuse, a missing file is \<^verbatim>\<open>FileNotFoundError\<close>, reading
  may fail (a decoding error in text mode).
\<close>

definition open_read :: "('s, 'm) env \<Rightarrow> string \<Rightarrow> string \<Rightarrow> (string, 's) stmt" where
  "open_read env p mode w =
     (let w1 = record_call (OpenFile p mode) w in
      case io_fault env (IoOpen mode) p of
        Some e \<Rightarrow> (Inl e, w1)
      | None \<Rightarrow>
          (case files w p of
             None \<Rightarrow> (Inl (file_not_found env p), w1)
           | Some content \<Rightarrow>
               (case io_fault env IoRead p of
                  Some e \<Rightarrow> (Inl e, w1)
                | None \<Rightarrow> (Inr content, w1))))"

text \<open>\<^verbatim>\<open>open(p, 'w')\<close> truncates the file; writing appends to it.\<close>

definition open_write :: "('s, 'm) env \<Rightarrow> string \<Rightarrow> (unit, 's) stmt" where
  "open_write env p w =
     (let w1 = record_call (OpenFile p ''w'') w in
      case io_fault env (IoOpen ''w'') p of
        Some e \<Rightarrow> (Inl e, w1)
      | None \<Rightarrow> (Inr (), w1\<lparr>files := (files w1)(p \<mapsto> [])\<rparr>))"

definition file_write :: "('s, 'm) env \<Rightarrow> string \<Rightarrow> string \<Rightarrow> (unit, 's) stmt" where
  "file_write env p txt w =
     (case io_fault env IoWrite p of
        Some e \<Rightarrow> (Inl e, w)
      | None \<Rightarrow>
          (Inr (), w\<lparr>files := (files w)(p \<mapsto> (case files w p of None \<Rightarrow> [] | Some c \<Rightarrow> c) @ txt)\<rparr>))"

text \<open>\<^verbatim>\<open>str(v)\<close> inside an f-string: a string is itself, anything else is the builtin's.\<close>

definition py_str :: "('s, 'm) env \<Rightarrow> json \<Rightarrow> string" where
  "py_str env v = (case v of JString s \<Rightarrow> s | _ \<Rightarrow> builtin_str env v)"

fun join :: "string \<Rightarrow> string list \<Rightarrow> string" where
  "join sep [] = []"
| "join sep [x] = x"
| "join sep (x # y # ys) = x @ sep @ join sep (y # ys)"

text \<open>\<^verbatim>\<open>str(xs)\<close> of a list of strings.\<close>

definition py_str_list :: "('s, 'm) env \<Rightarrow> string list \<Rightarrow> string" where
  "py_str_list env xs = ''['' @ join '', '' (map (builtin_repr env) xs) @ '']''"

text \<open>\<^verbatim>\<open>d[key]\<close> for a string key.\<close>

definition not_subscriptable :: "string \<Rightarrow> exn" where
  "not_subscriptable ty = Exn [''TypeError''] (sq @ ty @ sq @ '' object is not subscriptable'')"

definition py_getitem :: "('s, 'm) env \<Rightarrow> json \<Rightarrow> string \<Rightarrow> exn + json" where
  "py_getitem env d key =
     (case d of
        JObject kvs \<Rightarrow>
          (case map_of kvs key of
             Some v \<Rightarrow> Inr v
           | None \<Rightarrow> Inl (Exn [''KeyError'', ''LookupError''] (builtin_repr env key)))
      | JArray xs \<Rightarrow>
          Inl (Exn [''TypeError''] ''list indices must be integers or slices, not str'')
      | JString s \<Rightarrow> Inl (Exn [''TypeError''] ''string indices must be integers'')
      | JNull \<Rightarrow> Inl (not_subscriptable ''NoneType'')
      | JBool b \<Rightarrow> Inl (not_subscriptable ''bool'')
      | JInt n \<Rightarrow> Inl (not_subscriptable ''int'')
      | JFloat x \<Rightarrow> Inl (not_subscriptable ''float''))"

text \<open>\<^verbatim>\<open>[int(x) for x in xs]\<close>: the first failing conversion raises.\<close>

fun ints_of :: "('s, 'm) env \<Rightarrow> string list \<Rightarrow> exn + int list" where
  "ints_of env [] = Inr []"
| "ints_of env (x # xs) =
     (case builtin_int env x of
        Inl e \<Rightarrow> Inl e
      | Inr n \<Rightarrow> (case ints_of env xs of Inl e \<Rightarrow> Inl e | Inr ns \<Rightarrow> Inr (n # ns)))"

text \<open>\<^verbatim>\<open>max(ns)\<close> of a list.\<close>

fun py_max :: "int list \<Rightarrow> exn + int" where
  "py_max [] = Inl (Exn [''ValueError''] ''max() arg is an empty sequence'')"
| "py_max (n # ns) = Inr (fold max ns n)"

text \<open>
  \<^verbatim>\<open>with mlflow.start_run() as run: body\<close>. Leaving the block ends the run, as
  \<^verbatim>\<open>FINISHED\<close> after a normal exit and as \<^verbatim>\<open>FAILED\<close> after an exception, which is
  never suppressed; an error of ending the run replaces the outcome.
\<close>

definition with_run :: "('s, 'm) env \<Rightarrow> (run \<Rightarrow> ('a, 's) stmt) \<Rightarrow> ('a, 's) stmt" where
  "with_run env body w =
     (case client_call StartRun (start_run env) w of
        (Inl e, w1) \<Rightarrow> (Inl e, w1)
      | (Inr r, w1) \<Rightarrow>
          (case body r w1 of
             (Inr v, w2) \<Rightarrow>
               (case client_call (EndRun ''FINISHED'') (end_run env ''FINISHED'') w2 of
                  (Inl e2, w3) \<Rightarrow> (Inl e2, w3)
                | (Inr u, w3) \<Rightarrow> (Inr v, w3))
           | (Inl e, w2) \<Rightarrow>
               (case client_call (EndRun ''FAILED'') (end_run env ''FAILED'') w2 of
                  (Inl e2, w3) \<Rightarrow> (Inl e2, w3)
                | (Inr u, w3) \<Rightarrow> (Inl e, w3))))"

section \<open>The functions of \<^verbatim>\<open>register_model.py\<close>\<close>

subsection \<open>\<^verbatim>\<open>load_model_info\<close>\<close>

definition load_model_info_try :: "('s, 'm) env \<Rightarrow> string \<Rightarrow> (json, 's) stmt" where
  "load_model_info_try env file_path =
     then_do (open_read env file_path ''r'') (\<lambda>content.
     then_do (lift (json_loads env content)) (\<lambda>model_info.
     then_do (effect (logging INFO ''Model info loaded from %s'' [AStr file_path])) (\<lambda>_.
     ret model_info)))"

definition load_model_info_except :: "string \<Rightarrow> exn \<Rightarrow> 's world \<Rightarrow> 's world" where
  "load_model_info_except file_path e =
     (if isinstance e ''FileNotFoundError'' then
        logging ERROR ''File not found: %s'' [AStr file_path]
      else if isinstance e ''JSONDecodeError'' then
        logging ERROR ''Failed to parse JSON file: %s'' [AExn e]
      else
        logging ERROR ''Unexpected error occurred while loading model info: %s'' [AExn e])"

definition load_model_info :: "('s, 'm) env \<Rightarrow> string \<Rightarrow> (json, 's) stmt" where
  "load_model_info env file_path =
     try_except (load_model_info_try env file_path) (load_model_info_except file_path)"

subsection \<open>\<^verbatim>\<open>verify_run_artifacts\<close>\<close>

definition verify_run_artifacts_try :: "('s, 'm) env \<Rightarrow> json \<Rightarrow> (string list, 's) stmt" where
  "verify_run_artifacts_try env run_id =
     then_do (client_call NewClient (new_client env)) (\<lambda>client.
     then_do (client_call (ListArtifacts run_id) (list_artifacts env run_id)) (\<lambda>artifacts.
     let artifact_paths = map art_path artifacts in
     then_do (effect (logging INFO ''Found artifacts in run %s: %s''
                        [AVal run_id, AList artifact_paths])) (\<lambda>_.
     ret artifact_paths)))"

text \<open>The handler answers with the empty list: the function cannot raise.\<close>

definition verify_run_artifacts ::
  "('s, 'm) env \<Rightarrow> json \<Rightarrow> 's world \<Rightarrow> string list \<times> 's world" where
  "verify_run_artifacts env run_id w =
     (case verify_run_artifacts_try env run_id w of
        (Inr artifact_paths, w1) \<Rightarrow> (artifact_paths, w1)
      | (Inl e, w1) \<Rightarrow> ([], logging ERROR ''Error listing artifacts: %s'' [AExn e] w1))"

subsection \<open>\<^verbatim>\<open>register_model_from_run\<close>\<close>

definition artifact_not_found :: "('s, 'm) env \<Rightarrow> json \<Rightarrow> string list \<Rightarrow> exn" where
  "artifact_not_found env model_path artifacts =
     Exn [''ValueError'']
         (''Model artifact '' @ sq @ py_str env model_path @ sq
          @ '' not found in run. Available artifacts: '' @ py_str_list env artifacts)"

definition register_model_from_run_try ::
  "('s, 'm) env \<Rightarrow> json \<Rightarrow> json \<Rightarrow> string \<Rightarrow> (string, 's) stmt" where
  "register_model_from_run_try env run_id model_path model_name =
     then_do (client_call NewClient (new_client env)) (\<lambda>client.
     then_do (\<lambda>w. case verify_run_artifacts env run_id w of (a, w1) \<Rightarrow> (Inr a, w1))
       (\<lambda>artifacts.
     if model_path \<notin> set (map JString artifacts) then
       raise (artifact_not_found env model_path artifacts)
     else
       let model_uri = ''runs:/'' @ py_str env run_id @ ''/'' @ py_str env model_path in
       then_do (effect (logging INFO ''Model URI: %s'' [AStr model_uri])) (\<lambda>_.
       then_do (client_call (RegisterModel model_uri model_name)
                  (register_model env model_uri model_name)) (\<lambda>model_details.
       then_do (effect (logging INFO ''Model registered with name: %s, version: %s''
                  [AStr (mv_name model_details), AStr (mv_version model_details)])) (\<lambda>_.
       then_do (client_call
                  (TransitionStage model_name (mv_version model_details) ''Staging'' False)
                  (transition_model_version_stage env model_name (mv_version model_details)
                     ''Staging'' False)) (\<lambda>_.
       then_do (effect (logging INFO ''Model version %s transitioned to Staging''
                  [AStr (mv_version model_details)])) (\<lambda>_.
       ret (mv_version model_details))))))))"

definition register_model_from_run ::
  "('s, 'm) env \<Rightarrow> json \<Rightarrow> json \<Rightarrow> string \<Rightarrow> (string, 's) stmt" where
  "register_model_from_run env run_id model_path model_name =
     try_except (register_model_from_run_try env run_id model_path model_name)
       (\<lambda>e. logging ERROR ''Error during model registration: %s'' [AExn e])"

subsection \<open>\<^verbatim>\<open>register_model_directly\<close>\<close>

definition no_versions_found :: "string \<Rightarrow> exn" where
  "no_versions_found model_name =
     Exn [''ValueError''] (''No versions found for model '' @ sq @ model_name @ sq)"

definition register_model_directly_try ::
  "('s, 'm) env \<Rightarrow> string \<Rightarrow> string \<Rightarrow> (string, 's) stmt" where
  "register_model_directly_try env model_file_path model_name =
     then_do (open_read env model_file_path ''rb'') (\<lambda>content.
     then_do (lift (pickle_loads env content)) (\<lambda>model.
     then_do (effect (logging INFO ''Model loaded from %s'' [AStr model_file_path])) (\<lambda>_.
     with_run env (\<lambda>run.
       then_do (client_call (LogModel ''model'' model_name)
                  (log_model env model ''model'' model_name)) (\<lambda>_.
       then_do (effect (logging INFO ''Model logged and registered to MLflow'' [])) (\<lambda>_.
       let run_id = run_info_run_id run in
       then_do (effect (record_call (Sleep 2))) (\<lambda>_.
       then_do (client_call NewClient (new_client env)) (\<lambda>client.
       let query = ''name='' @ sq @ model_name @ sq in
       then_do (client_call (SearchModelVersions query)
                  (search_model_versions env query)) (\<lambda>model_versions.
       if model_versions = [] then
         raise (no_versions_found model_name)
       else
         then_do (lift (ints_of env (map mv_version model_versions))) (\<lambda>version_numbers.
         then_do (lift (py_max version_numbers)) (\<lambda>latest_version.
         then_do (effect (logging INFO ''Model registered with name: %s, version: %s''
                    [AStr model_name, AInt latest_version])) (\<lambda>_.
         then_do (client_call
                    (TransitionStage model_name (builtin_str env (JInt latest_version))
                       ''Staging'' False)
                    (transition_model_version_stage env model_name
                       (builtin_str env (JInt latest_version)) ''Staging'' False)) (\<lambda>_.
         then_do (effect (logging INFO ''Model version %s transitioned to Staging''
                    [AInt latest_version])) (\<lambda>_.
         ret (builtin_str env (JInt latest_version))))))))))))))))"

definition register_model_directly ::
  "('s, 'm) env \<Rightarrow> string \<Rightarrow> string \<Rightarrow> (string, 's) stmt" where
  "register_model_directly env model_file_path model_name =
     try_except (register_model_directly_try env model_file_path model_name)
       (\<lambda>e. logging ERROR ''Error during direct model registration: %s'' [AExn e])"

subsection \<open>\<^verbatim>\<open>save_registered_model_info\<close>\<close>

definition registered_info :: "string \<Rightarrow> string \<Rightarrow> json" where
  "registered_info model_name version =
     JObject [(''model_name'', JString model_name),
              (''version'', JString version),
              (''stage'', JString ''Staging'')]"

definition save_registered_model_info_try ::
  "('s, 'm) env \<Rightarrow> string \<Rightarrow> string \<Rightarrow> string \<Rightarrow> (unit, 's) stmt" where
  "save_registered_model_info_try env model_name version file_path =
     then_do (open_write env file_path) (\<lambda>file.
     then_do (file_write env file_path
                (json_dumps env 4 (registered_info model_name version))) (\<lambda>_.
     then_do (effect (logging INFO ''Registered model info saved to %s'' [AStr file_path]))
       (\<lambda>_.
     ret ())))"

definition save_registered_model_info ::
  "('s, 'm) env \<Rightarrow> string \<Rightarrow> string \<Rightarrow> string \<Rightarrow> (unit, 's) stmt" where
  "save_registered_model_info env model_name version file_path =
     try_except (save_registered_model_info_try env model_name version file_path)
       (\<lambda>e. logging ERROR ''Error occurred while saving registered model info: %s'' [AExn e])"

subsection \<open>\<^verbatim>\<open>main\<close>\<close>

text \<open>The body of the inner \<^verbatim>\<open>try\<close>: register from the run named in the report.\<close>

definition main_from_run :: "('s, 'm) env \<Rightarrow> string \<Rightarrow> (string, 's) stmt" where
  "main_from_run env model_name =
     then_do (load_model_info env ''reports/experiment_info.json'') (\<lambda>model_info.
     then_do (lift (py_getitem env model_info ''run_id'')) (\<lambda>run_id.
     then_do (lift (py_getitem env model_info ''model_path'')) (\<lambda>model_path.
     then_do (effect (logging INFO ''Retrieved run_id: %s, model_path: %s''
                [AVal run_id, AVal model_path])) (\<lambda>_.
     then_do (register_model_from_run env run_id model_path model_name) (\<lambda>version.
     then_do (effect (print (''Model '' @ sq @ model_name @ sq @ '' version '' @ version
                @ '' successfully registered from run '' @ py_str env run_id @ ''!''))) (\<lambda>_.
     ret version))))))"

text \<open>The handler of \<^verbatim>\<open>except (FileNotFoundError, ValueError) as e\<close>.\<close>

definition main_from_file :: "('s, 'm) env \<Rightarrow> string \<Rightarrow> exn \<Rightarrow> (string, 's) stmt" where
  "main_from_file env model_name e =
     then_do (effect (logging WARNING ''Could not register from existing run: %s'' [AExn e]))
       (\<lambda>_.
     then_do (effect (logging INFO ''Attempting to register model directly from file...'' []))
       (\<lambda>_.
     let model_file_path = ''./models/model.pkl'' in
     then_do (register_model_directly env model_file_path model_name) (\<lambda>version.
     then_do (effect (print (''Model '' @ sq @ model_name @ sq @ '' version '' @ version
                @ '' successfully registered from file!''))) (\<lambda>_.
     ret version))))"

definition main_register :: "('s, 'm) env \<Rightarrow> string \<Rightarrow> (string, 's) stmt" where
  "main_register env model_name w =
     (case main_from_run env model_name w of
        (Inr version, w1) \<Rightarrow> (Inr version, w1)
      | (Inl e, w1) \<Rightarrow>
          if isinstance e ''FileNotFoundError'' \<or> isinstance e ''ValueError'' then
            main_from_file env model_name e w1
          else (Inl e, w1))"

definition main_finish :: "('s, 'm) env \<Rightarrow> string \<Rightarrow> string \<Rightarrow> (unit, 's) stmt" where
  "main_finish env model_name version =
     then_do (save_registered_model_info env model_name version
                ''reports/registered_model_info.json'') (\<lambda>_.
     then_do (effect (print ''Model transitioned to Staging stage.'')) (\<lambda>_.
     ret ()))"

definition main_try :: "('s, 'm) env \<Rightarrow> (unit, 's) stmt" where
  "main_try env =
     (let model_name = ''sentiment_model'' in
      then_do (main_register env model_name) (main_finish env model_name))"

definition main_except :: "exn \<Rightarrow> 's world \<Rightarrow> 's world" where
  "main_except e w =
     print (''Error: '' @ exn_str e)
       (logging ERROR ''Failed to complete the model registration process: %s'' [AExn e] w)"

definition main :: "('s, 'm) env \<Rightarrow> (unit, 's) stmt" where
  "main env = try_except (main_try env) main_except"

section \<open>A small tracking service and library, for evaluating the model\<close>

text \<open>Decimal numerals for \<^verbatim>\<open>str\<close> and \<^verbatim>\<open>int\<close>.\<close>

definition digit_char :: "nat \<Rightarrow> char" where
  "digit_char d = char_of (48 + d)"

fun show_nat :: "nat \<Rightarrow> string" where
  "show_nat n =
     (if n < 10 then [digit_char n] else show_nat (n div 10) @ [digit_char (n mod 10)])"

declare show_nat.simps [simp del]

definition show_int :: "int \<Rightarrow> string" where
  "show_int i = (if i < 0 then CHR ''-'' # show_nat (nat (- i)) else show_nat (nat i))"

definition is_digit :: "char \<Rightarrow> bool" where
  "is_digit c = (48 \<le> (of_char c :: nat) \<and> (of_char c :: nat) \<le> 57)"

definition read_int :: "string \<Rightarrow> exn + int" where
  "read_int s =
     (if s \<noteq> [] \<and> list_all is_digit s then
        Inr (fold (\<lambda>c n. 10 * n + (int (of_char c) - 48)) s 0)
      else Inl (Exn [''ValueError'']
                  (''invalid literal for int() with base 10: '' @ sq @ s @ sq)))"

text \<open>A JSON codec for objects whose values are strings free of quotes and backslashes.\<close>

definition dq :: char where
  "dq = CHR 0x22"

definition is_ws :: "char \<Rightarrow> bool" where
  "is_ws c = (c = CHR '' '' \<or> c = CHR 0x0A \<or> c = CHR 0x0D \<or> c = CHR 0x09)"

definition quoted :: "string \<Rightarrow> string" where
  "quoted s = dq # s @ [dq]"

fun show_json :: "nat \<Rightarrow> json \<Rightarrow> string" where
  "show_json indent (JObject kvs) =
     (if kvs = [] then ''{}''
      else ''{'' @ [CHR 0x0A]
           @ join ('','' @ [CHR 0x0A])
               (map (\<lambda>(k, v). replicate indent CHR '' '' @ quoted k @ '': ''
                      @ (case v of JString s \<Rightarrow> quoted s | _ \<Rightarrow> ''null'')) kvs)
           @ [CHR 0x0A] @ ''}'')"
| "show_json indent (JString s) = quoted s"
| "show_json indent v = ''null''"

definition read_quoted :: "string \<Rightarrow> (string \<times> string) option" where
  "read_quoted s =
     (case s of
        [] \<Rightarrow> None
      | c # r \<Rightarrow>
          if c = dq \<and> dq \<in> set r
          then Some (takeWhile (\<lambda>x. x \<noteq> dq) r, tl (dropWhile (\<lambda>x. x \<noteq> dq) r))
          else None)"

fun read_members ::
  "nat \<Rightarrow> string \<Rightarrow> (string \<times> json) list \<Rightarrow> (string \<times> json) list option" where
  "read_members 0 s acc = None"
| "read_members (Suc fuel) s acc =
     (case read_quoted (dropWhile is_ws s) of
        None \<Rightarrow> None
      | Some (k, r1) \<Rightarrow>
          (case dropWhile is_ws r1 of
             [] \<Rightarrow> None
           | c # r2 \<Rightarrow>
               if c \<noteq> CHR '':'' then None
               else
                 (case read_quoted (dropWhile is_ws r2) of
                    None \<Rightarrow> None
                  | Some (v, r3) \<Rightarrow>
                      (case dropWhile is_ws r3 of
                         [] \<Rightarrow> None
                       | d # r4 \<Rightarrow>
                           if d = CHR '','' then read_members fuel r4 (acc @ [(k, JString v)])
                           else if d = CHR ''}'' \<and> dropWhile is_ws r4 = []
                           then Some (acc @ [(k, JString v)])
                           else None))))"

definition json_decode_error :: exn where
  "json_decode_error = Exn [''JSONDecodeError'', ''ValueError''] ''Expecting value''"

definition read_json :: "string \<Rightarrow> exn + json" where
  "read_json s =
     (case dropWhile is_ws s of
        [] \<Rightarrow> Inl json_decode_error
      | c # r \<Rightarrow>
          if c \<noteq> CHR ''{'' then Inl json_decode_error
          else if dropWhile is_ws r = ''}'' then Inr (JObject [])
          else (case read_members (length r) r [] of
                  None \<Rightarrow> Inl json_decode_error
                | Some kvs \<Rightarrow> Inr (JObject kvs)))"

text \<open>
  A tracking service whose state is the number of registered versions of the one model:
  run \<^verbatim>\<open>run1\<close> holds the artifact \<^verbatim>\<open>model\<close>, registering or logging a model adds
  a version, and every other call succeeds.
\<close>

definition mlflow_error :: "string \<Rightarrow> exn" where
  "mlflow_error msg = Exn [''MlflowException''] msg"

definition ref_env :: "(nat, string) env" where
  "ref_env =
     \<lparr> io_fault = (\<lambda>op p. None),
       json_loads = read_json,
       json_dumps = show_json,
       pickle_loads = (\<lambda>content. Inr content),
       builtin_str = (\<lambda>v. case v of JInt i \<Rightarrow> show_int i | _ \<Rightarrow> ''None''),
       builtin_repr = (\<lambda>s. sq @ s @ sq),
       builtin_int = read_int,
       new_client = (\<lambda>s. (Inr (), s)),
       list_artifacts = (\<lambda>run_id s.
         if run_id = JString ''run1''
         then (Inr [\<lparr>art_path = ''model'', art_is_dir = True\<rparr>], s)
         else (Inl (mlflow_error ''Run not found''), s)),
       register_model = (\<lambda>model_uri name s.
         (Inr \<lparr>mv_name = name, mv_version = show_nat (Suc s)\<rparr>, Suc s)),
       transition_model_version_stage = (\<lambda>name version stage archive s. (Inr (), s)),
       start_run = (\<lambda>s. (Inr \<lparr>run_info_run_id = ''run2''\<rparr>, s)),
       end_run = (\<lambda>status s. (Inr (), s)),
       log_model = (\<lambda>model artifact_path name s. (Inr (), Suc s)),
       search_model_versions = (\<lambda>query s.
         (Inr (map (\<lambda>n. \<lparr>mv_name = ''sentiment_model'', mv_version = show_nat (Suc n)\<rparr>)
                 [0..<s]), s)) \<rparr>"

text \<open>The same service with a registry that refuses to register.\<close>

definition refusing_env :: "(nat, string) env" where
  "refusing_env =
     ref_env\<lparr>register_model :=
       (\<lambda>model_uri name s. (Inl (mlflow_error ''Registry unavailable''), s))\<rparr>"

text \<open>The same service with an artifact store that cannot be listed.\<close>

definition unlisted_env :: "(nat, string) env" where
  "unlisted_env =
     ref_env\<lparr>list_artifacts :=
       (\<lambda>run_id s. (Inl (mlflow_error ''Artifact store unavailable''), s))\<rparr>"

definition experiment_info :: json where
  "experiment_info = JObject [(''run_id'', JString ''run1''), (''model_path'', JString ''model'')]"

text \<open>A project directory after training, with two versions registered already.\<close>

definition ref_world :: "nat world" where
  "ref_world =
     \<lparr> files = [''reports/experiment_info.json'' \<mapsto> show_json 4 experiment_info,
                ''./models/model.pkl'' \<mapsto> ''pickled-model''],
       log = [], stdout = [], calls = [], service = 2 \<rparr>"

text \<open>The same directory without the report of the experiment.\<close>

definition bare_world :: "nat world" where
  "bare_world = ref_world\<lparr>files := [''./models/model.pkl'' \<mapsto> ''pickled-model'']\<rparr>"

text \<open>The same service behind a tracking server that cannot be reached.\<close>

definition offline_env :: "(nat, string) env" where
  "offline_env =
     ref_env\<lparr>new_client := (\<lambda>s. (Inl (mlflow_error ''Tracking server unreachable''), s))\<rparr>"



text \<open>The same service with a registry that reports no version of any model.\<close>

definition forgetful_env :: "(nat, string) env" where
  "forgetful_env = ref_env\<lparr>search_model_versions := (\<lambda>query s. (Inr [], s))\<rparr>"

text \<open>The number a version of the small service stands for.\<close>

definition version_number :: "model_version \<Rightarrow> int" where
  "version_number mv = (case read_int (mv_version mv) of Inr n \<Rightarrow> n | Inl e \<Rightarrow> 0)"

section \<open>Sequencing facts\<close>

lemma then_do_raises: "m w = (Inl e, w1) \<Longrightarrow> then_do m f w = (Inl e, w1)"
  by (simp add: then_do_def)


lemma then_do_InrE:
  "then_do m f w = (Inr v, w') \<Longrightarrow> \<exists>x w1. m w = (Inr x, w1) \<and> f x w1 = (Inr v, w')"
  by (auto simp: then_do_def split: prod.splits sum.splits)

lemma try_except_raises:
  "body w = (Inl e, w1) \<Longrightarrow> try_except body handler w = (Inl e, handler e w1)"
  by (simp add: try_except_def)

lemma try_except_returns:
  "body w = (Inr v, w1) \<Longrightarrow> try_except body handler w = (Inr v, w1)"
  by (simp add: try_except_def)

lemma try_except_InrE:
  "try_except body handler w = (Inr v, w') \<Longrightarrow> body w = (Inr v, w')"
  by (auto simp: try_except_def split: prod.splits sum.splits)

lemma raised_from_fst: "fst r = Inl e \<Longrightarrow> r = (Inl e, snd r)"
  by (cases r) simp

lemma open_write_ok:
  "io_fault env (IoOpen ''w'') p = None \<Longrightarrow>
     open_write env p w = (Inr (), w\<lparr>calls := calls w @ [OpenFile p ''w''], files := (files w)(p \<mapsto> [])\<rparr>)"
  by (simp add: open_write_def record_call_def Let_def)

lemma file_write_ok:
  "io_fault env IoWrite p = None \<Longrightarrow> files w p = Some c \<Longrightarrow>
     file_write env p txt w = (Inr (), w\<lparr>files := (files w)(p \<mapsto> c @ txt)\<rparr>)"
  by (simp add: file_write_def)

lemma save_registered_model_info_ok:
  assumes "io_fault env (IoOpen ''w'') p = None" and "io_fault env IoWrite p = None"
  shows "save_registered_model_info env model_name version p w
           = (Inr (), w\<lparr>calls := calls w @ [OpenFile p ''w''],
                        files := (files w)(p \<mapsto> json_dumps env 4 (registered_info model_name version)),
                        log := log w @ [(INFO, ''Registered model info saved to %s'', [AStr p])]\<rparr>)"
  using assms
  by (simp add: save_registered_model_info_def save_registered_model_info_try_def try_except_def
        then_do_def open_write_ok file_write_ok effect_def ret_def logging_def)


lemma returned_from_fst: "fst r = Inr v \<Longrightarrow> r = (Inr v, snd r)"
  by (cases r) simp

lemma client_call_eq:
  "op (service w) = (r, s1) \<Longrightarrow>
     client_call c op w = (r, w\<lparr>calls := calls w @ [c], service := s1\<rparr>)"
  by (simp add: client_call_def)

lemma verify_run_artifacts_calls:
  "calls (snd (verify_run_artifacts env run_id w)) = calls w @ [NewClient]
   \<or> calls (snd (verify_run_artifacts env run_id w)) = calls w @ [NewClient, ListArtifacts run_id]"
  by (auto simp: verify_run_artifacts_def verify_run_artifacts_try_def then_do_def
        client_call_def effect_def ret_def logging_def Let_def
      split: prod.splits sum.splits)

lemma verify_run_artifacts_listed:
  "fst (verify_run_artifacts env run_id w) \<noteq> [] \<Longrightarrow>
     calls (snd (verify_run_artifacts env run_id w)) = calls w @ [NewClient, ListArtifacts run_id]"
  by (auto simp: verify_run_artifacts_def verify_run_artifacts_try_def then_do_def
        client_call_def effect_def ret_def logging_def Let_def
      split: prod.splits sum.splits)

lemma artifact_not_found_is_value_error:
  "isinstance (artifact_not_found env model_path artifacts) ''ValueError''"
  by (simp add: artifact_not_found_def isinstance_def)

lemma register_model_from_run_try_returns:
  fixes env :: "('s, 'm) env"
  assumes "register_model_from_run_try env run_id model_path model_name w = (Inr version, w')"
  shows "\<exists>s0 s1 model_details.
           register_model env (''runs:/'' @ py_str env run_id @ ''/'' @ py_str env model_path)
             model_name s0 = (Inr model_details, s1)
           \<and> mv_version model_details = version
           \<and> transition_model_version_stage env model_name version ''Staging'' False s1
               = (Inr (), service w')
           \<and> calls w' = calls w @ [NewClient, NewClient, ListArtifacts run_id,
                 RegisterModel (''runs:/'' @ py_str env run_id @ ''/'' @ py_str env model_path)
                   model_name,
                 TransitionStage model_name version ''Staging'' False]"
proof -
  let ?uri = "''runs:/'' @ py_str env run_id @ ''/'' @ py_str env model_path"
  from assms obtain client w0 where
    n: "client_call NewClient (new_client env) w = (Inr client, w0)"
    and r0: "then_do (\<lambda>w. case verify_run_artifacts env run_id w of (a, w1) \<Rightarrow> (Inr a, w1))
       (\<lambda>artifacts.
     if model_path \<notin> set (map JString artifacts) then
       raise (artifact_not_found env model_path artifacts)
     else
       let model_uri = ''runs:/'' @ py_str env run_id @ ''/'' @ py_str env model_path in
       then_do (effect (logging INFO ''Model URI: %s'' [AStr model_uri])) (\<lambda>_.
       then_do (client_call (RegisterModel model_uri model_name)
                  (register_model env model_uri model_name)) (\<lambda>model_details.
       then_do (effect (logging INFO ''Model registered with name: %s, version: %s''
                  [AStr (mv_name model_details), AStr (mv_version model_details)])) (\<lambda>_.
       then_do (client_call
                  (TransitionStage model_name (mv_version model_details) ''Staging'' False)
                  (transition_model_version_stage env model_name (mv_version model_details)
                     ''Staging'' False)) (\<lambda>_.
       then_do (effect (logging INFO ''Model version %s transitioned to Staging''
                  [AStr (mv_version model_details)])) (\<lambda>_.
       ret (mv_version model_details))))))) w0 = (Inr version, w')"
    unfolding register_model_from_run_try_def by (blast dest: then_do_InrE)
  have c0: "calls w0 = calls w @ [NewClient]"
    using n by (auto simp: client_call_def split: prod.splits)
  obtain artifacts w1 where v: "verify_run_artifacts env run_id w0 = (artifacts, w1)"
    by (cases "verify_run_artifacts env run_id w0")
  from r0 v have found: "model_path \<in> set (map JString artifacts)"
    by (auto simp: then_do_def raise_def split: if_splits)
  then have "fst (verify_run_artifacts env run_id w0) \<noteq> []"
    using v by auto
  from verify_run_artifacts_listed [OF this] v c0
  have c1: "calls w1 = calls w @ [NewClient, NewClient, ListArtifacts run_id]"
    by simp
  from r0 v found have
    "\<exists>model_details s1.
       register_model env ?uri model_name (service w1) = (Inr model_details, s1)
       \<and> mv_version model_details = version
       \<and> transition_model_version_stage env model_name version ''Staging'' False s1
           = (Inr (), service w')
       \<and> calls w' = calls w1 @ [RegisterModel ?uri model_name,
                                 TransitionStage model_name version ''Staging'' False]"
    by (auto simp: then_do_def client_call_def effect_def ret_def raise_def logging_def Let_def
        split: prod.splits sum.splits if_splits)
  then obtain model_details s1 where
    p: "register_model env ?uri model_name (service w1) = (Inr model_details, s1)
       \<and> mv_version model_details = version
       \<and> transition_model_version_stage env model_name version ''Staging'' False s1
           = (Inr (), service w')
       \<and> calls w' = calls w1 @ [RegisterModel ?uri model_name,
                                 TransitionStage model_name version ''Staging'' False]"
    by auto
  show ?thesis
    by (rule exI [of _ "service w1"], rule exI [of _ s1], rule exI [of _ model_details])
       (use c1 p in simp)
qed

lemma register_model_directly_try_returns:
  fixes env :: "('s, 'm) env"
  assumes "register_model_directly_try env model_file_path model_name w = (Inr version, w')"
  shows "\<exists>s0 s1.
           transition_model_version_stage env model_name version ''Staging'' False s0
             = (Inr (), s1)
           \<and> end_run env ''FINISHED'' s1 = (Inr (), service w')
           \<and> calls w' = calls w @ [OpenFile model_file_path ''rb'', StartRun,
                 LogModel ''model'' model_name, Sleep 2, NewClient,
                 SearchModelVersions (''name='' @ sq @ model_name @ sq),
                 TransitionStage model_name version ''Staging'' False, EndRun ''FINISHED'']"
  using assms
  by (auto simp: register_model_directly_try_def with_run_def then_do_def client_call_def
        effect_def ret_def raise_def lift_def logging_def record_call_def open_read_def Let_def
      split: prod.splits sum.splits if_splits option.splits) blast

lemma ints_of_versions:
  "\<forall>mv\<in>set mvs. builtin_int env (mv_version mv) = Inr (number mv) \<Longrightarrow>
     ints_of env (map mv_version mvs) = Inr (map number mvs)"
  by (induction mvs) simp_all

lemma py_max_is_Max:
  assumes "ns \<noteq> []"
  shows "py_max ns = Inr (Max (set ns))"
proof (cases ns)
  case Nil
  with assms show ?thesis by simp
next
  case (Cons n ms)
  then show ?thesis using Max.set_eq_fold [of n ms] by simp
qed

lemma no_versions_found_is_value_error:
  "isinstance (no_versions_found model_name) ''ValueError''"
  by (simp add: no_versions_found_def isinstance_def)

section \<open>Listing the artifacts of a run\<close>

text \<open>
  Claim C3. \<^verbatim>\<open>verify_run_artifacts\<close> never raises: its result is a list. When the
  client cannot be built or listing the artifacts of the run raises, whatever the
  exception, the answer is the empty list; when listing succeeds, the answer is the
  paths of the artifacts the client reported, in the client's order.
\<close>

theorem verify_run_artifacts_answer:
  "(new_client env (service w) = (Inl e, s1) \<longrightarrow> fst (verify_run_artifacts env run_id w) = [])
   \<and> (new_client env (service w) = (Inr u, s1) \<longrightarrow>
        list_artifacts env run_id s1 = (Inl e, s2) \<longrightarrow>
          fst (verify_run_artifacts env run_id w) = [])
   \<and> (new_client env (service w) = (Inr u, s1) \<longrightarrow>
        list_artifacts env run_id s1 = (Inr artifacts, s2) \<longrightarrow>
          fst (verify_run_artifacts env run_id w) = map art_path artifacts)"
  by (simp add: verify_run_artifacts_def verify_run_artifacts_try_def then_do_def
        client_call_def effect_def ret_def Let_def)

theorem verify_run_artifacts_answer_witness:
  "fst (verify_run_artifacts offline_env (JString ''run1'') ref_world) = []
   \<and> fst (verify_run_artifacts ref_env (JString ''run0'') ref_world) = []
   \<and> fst (verify_run_artifacts ref_env (JString ''run1'') ref_world) = [''model'']"
proof -
  have a: "new_client offline_env (service ref_world)
             = (Inl (mlflow_error ''Tracking server unreachable''), 2)"
    by (simp add: offline_env_def ref_env_def ref_world_def)
  have b: "new_client ref_env (service ref_world) = (Inr (), 2)"
    by (simp add: ref_env_def ref_world_def)
  have c: "list_artifacts ref_env (JString ''run0'') 2 = (Inl (mlflow_error ''Run not found''), 2)"
    by (simp add: ref_env_def)
  have d: "list_artifacts ref_env (JString ''run1'') 2
             = (Inr [\<lparr>art_path = ''model'', art_is_dir = True\<rparr>], 2)"
    by (simp add: ref_env_def)
  from verify_run_artifacts_answer
         [of offline_env ref_world "mlflow_error ''Tracking server unreachable''" 2
             "JString ''run1''"] a
  have 1: "fst (verify_run_artifacts offline_env (JString ''run1'') ref_world) = []"
    by simp
  from verify_run_artifacts_answer
         [of ref_env ref_world "mlflow_error ''Run not found''" 2 "JString ''run0''" "()" 2] b c
  have 2: "fst (verify_run_artifacts ref_env (JString ''run0'') ref_world) = []"
    by simp
  from verify_run_artifacts_answer
         [of ref_env ref_world _ 2 "JString ''run1''" "()" 2
             "[\<lparr>art_path = ''model'', art_is_dir = True\<rparr>]"] b d
  have 3: "fst (verify_run_artifacts ref_env (JString ''run1'') ref_world) = [''model'']"
    by simp
  from 1 2 3 show ?thesis by simp
qed

section \<open>Errors are logged and raised again\<close>



section \<open>The file of the registered model\<close>

text \<open>
  Claim C4. When the operating system lets \<^verbatim>\<open>file_path\<close> be opened for writing and
  written, \<^verbatim>\<open>save_registered_model_info\<close> returns normally and leaves in
  \<^verbatim>\<open>file_path\<close> the serialisation, with indent 4, of the JSON object with exactly the
  keys \<^verbatim>\<open>model_name\<close>, \<^verbatim>\<open>version\<close> and \<^verbatim>\<open>stage\<close>, holding the given model
  name, the given version and the string \<^verbatim>\<open>Staging\<close>.
\<close>

theorem save_registered_model_info_writes_schema:
  assumes "io_fault env (IoOpen ''w'') file_path = None"
    and "io_fault env IoWrite file_path = None"
  shows "fst (save_registered_model_info env model_name version file_path w) = Inr ()
         \<and> files (snd (save_registered_model_info env model_name version file_path w)) file_path
             = Some (json_dumps env 4
                       (JObject [(''model_name'', JString model_name),
                                 (''version'', JString version),
                                 (''stage'', JString ''Staging'')]))"
  using save_registered_model_info_ok [OF assms]
  by (simp add: registered_info_def)

theorem save_registered_model_info_writes_schema_witness:
  "fst (save_registered_model_info ref_env ''sentiment_model'' ''3''
          ''reports/registered_model_info.json'' ref_world) = Inr ()
   \<and> files (snd (save_registered_model_info ref_env ''sentiment_model'' ''3''
          ''reports/registered_model_info.json'' ref_world))
        ''reports/registered_model_info.json''
      = Some (show_json 4
                (JObject [(''model_name'', JString ''sentiment_model''),
                          (''version'', JString ''3''),
                          (''stage'', JString ''Staging'')]))"
proof -
  have a: "io_fault ref_env (IoOpen ''w'') ''reports/registered_model_info.json'' = None"
    by (simp add: ref_env_def)
  have b: "io_fault ref_env IoWrite ''reports/registered_model_info.json'' = None"
    by (simp add: ref_env_def)
  have c: "json_dumps ref_env = show_json"
    by (simp add: ref_env_def)
  from save_registered_model_info_writes_schema [OF a b, of "''sentiment_model''" "''3''" ref_world]
  show ?thesis by (simp only: c)
qed



section \<open>The top-level flow\<close>



text \<open>
  Claim C1, as amended. When the attempt to register from the known run ends with an
  error that is an instance of \<^verbatim>\<open>FileNotFoundError\<close> or of \<^verbatim>\<open>ValueError\<close>
  (which \<^verbatim>\<open>json.JSONDecodeError\<close> derives from), \<^verbatim>\<open>main\<close> logs a warning and goes
  on with \<^verbatim>\<open>register_model_directly\<close> on \<^verbatim>\<open>./models/model.pkl\<close>, then saves the
  registered model info. An error of any other class is not followed by the fallback:
  \<^verbatim>\<open>main\<close> logs it, prints it and raises it.
\<close>

theorem main_falls_back_on_two_exception_classes:
  assumes "main_from_run env ''sentiment_model'' w = (Inl e, w1)"
  shows "(isinstance e ''FileNotFoundError'' \<or> isinstance e ''ValueError'' \<longrightarrow>
            main env w =
              try_except
                (then_do
                   (then_do (register_model_directly env ''./models/model.pkl''
                               ''sentiment_model'') (\<lambda>version.
                    then_do (effect (print (''Model '' @ sq @ ''sentiment_model'' @ sq
                               @ '' version '' @ version
                               @ '' successfully registered from file!''))) (\<lambda>_.
                    ret version)))
                   (main_finish env ''sentiment_model''))
                main_except
                (logging INFO ''Attempting to register model directly from file...'' []
                   (logging WARNING ''Could not register from existing run: %s'' [AExn e] w1)))
         \<and> (\<not> isinstance e ''FileNotFoundError'' \<and> \<not> isinstance e ''ValueError'' \<longrightarrow>
            main env w = (Inl e, main_except e w1))"
  using assms
  by (simp add: main_def main_try_def main_register_def main_from_file_def try_except_def
        then_do_def effect_def Let_def)

theorem main_falls_back_on_two_exception_classes_witness:
  "(fst (main_from_run ref_env ''sentiment_model'' bare_world)
      = Inl (file_not_found ref_env ''reports/experiment_info.json'')
    \<and> fst (main ref_env bare_world) = Inr ()
    \<and> OpenFile ''./models/model.pkl'' ''rb'' \<in> set (calls (snd (main ref_env bare_world))))
   \<and> (fst (main_from_run refusing_env ''sentiment_model'' ref_world)
      = Inl (mlflow_error ''Registry unavailable'')
    \<and> fst (main refusing_env ref_world) = Inl (mlflow_error ''Registry unavailable'')
    \<and> stdout (snd (main refusing_env ref_world)) = [''Error: Registry unavailable''])"
proof -
  let ?e = "file_not_found ref_env ''reports/experiment_info.json''"
  let ?w1 = "snd (main_from_run ref_env ''sentiment_model'' bare_world)"
  have a: "fst (main_from_run ref_env ''sentiment_model'' bare_world) = Inl ?e"
    by code_simp
  have i: "isinstance ?e ''FileNotFoundError''"
    by (simp add: isinstance_def file_not_found_def)
  have r: "fst (try_except
                (then_do
                   (then_do (register_model_directly ref_env ''./models/model.pkl''
                               ''sentiment_model'') (\<lambda>version.
                    then_do (effect (print (''Model '' @ sq @ ''sentiment_model'' @ sq
                               @ '' version '' @ version
                               @ '' successfully registered from file!''))) (\<lambda>_.
                    ret version)))
                   (main_finish ref_env ''sentiment_model''))
                main_except
                (logging INFO ''Attempting to register model directly from file...'' []
                   (logging WARNING ''Could not register from existing run: %s'' [AExn ?e] ?w1)))
           = Inr ()
         \<and> OpenFile ''./models/model.pkl'' ''rb'' \<in> set (calls (snd (try_except
                (then_do
                   (then_do (register_model_directly ref_env ''./models/model.pkl''
                               ''sentiment_model'') (\<lambda>version.
                    then_do (effect (print (''Model '' @ sq @ ''sentiment_model'' @ sq
                               @ '' version '' @ version
                               @ '' successfully registered from file!''))) (\<lambda>_.
                    ret version)))
                   (main_finish ref_env ''sentiment_model''))
                main_except
                (logging INFO ''Attempting to register model directly from file...'' []
                   (logging WARNING ''Could not register from existing run: %s'' [AExn ?e] ?w1)))))"
    by code_simp
  from main_falls_back_on_two_exception_classes [OF raised_from_fst [OF a]] i r
  have 1: "fst (main ref_env bare_world) = Inr ()
    \<and> OpenFile ''./models/model.pkl'' ''rb'' \<in> set (calls (snd (main ref_env bare_world)))"
    by simp
  let ?e2 = "mlflow_error ''Registry unavailable''"
  have b: "fst (main_from_run refusing_env ''sentiment_model'' ref_world) = Inl ?e2"
    by code_simp
  have n: "\<not> isinstance ?e2 ''FileNotFoundError'' \<and> \<not> isinstance ?e2 ''ValueError''"
    by (simp add: isinstance_def mlflow_error_def)
  have s: "stdout (snd (main_from_run refusing_env ''sentiment_model'' ref_world)) = []"
    by code_simp
  from main_falls_back_on_two_exception_classes [OF raised_from_fst [OF b]] n s
  have 2: "fst (main refusing_env ref_world) = Inl ?e2
    \<and> stdout (snd (main refusing_env ref_world)) = [''Error: Registry unavailable'']"
    by (simp add: main_except_def print_def logging_def mlflow_error_def)
  from a b 1 2 show ?thesis by simp
qed

text \<open>
  The claim as the specification words it (every failure of the first attempt is
  followed by the fallback) fails when the registry refuses the registration: the
  error of \<^verbatim>\<open>register_model_from_run\<close> is an \<^verbatim>\<open>MlflowException\<close>, the model file
  is never opened and \<^verbatim>\<open>main\<close> raises the error.
\<close>

theorem main_fallback_counterexample:
  "fst (register_model_from_run refusing_env (JString ''run1'') (JString ''model'')
          ''sentiment_model''
          (snd (load_model_info refusing_env ''reports/experiment_info.json'' ref_world)))
     = Inl (mlflow_error ''Registry unavailable'')
   \<and> fst (main_from_run refusing_env ''sentiment_model'' ref_world)
     = Inl (mlflow_error ''Registry unavailable'')
   \<and> fst (main refusing_env ref_world) = Inl (mlflow_error ''Registry unavailable'')
   \<and> calls (snd (main refusing_env ref_world))
     = [OpenFile ''reports/experiment_info.json'' ''r'', NewClient, NewClient,
        ListArtifacts (JString ''run1''),
        RegisterModel ''runs:/run1/model'' ''sentiment_model'']
   \<and> OpenFile ''./models/model.pkl'' ''rb'' \<notin> set (calls (snd (main refusing_env ref_world)))"
  by code_simp

section \<open>Registering from a run\<close>

text \<open>
  Claim C8. Once the client is built, if \<^verbatim>\<open>model_path\<close> is not among the paths that
  \<^verbatim>\<open>verify_run_artifacts(run_id)\<close> returns (in particular when listing failed and the
  answer is the empty list), \<^verbatim>\<open>register_model_from_run\<close> raises the
  \<^verbatim>\<open>ValueError\<close> that names the missing artifact, and the only outside calls it has
  made are the two client constructions and at most the listing: no model is
  registered and no stage is changed.
\<close>

theorem register_model_from_run_missing_artifact:
  assumes "client_call NewClient (new_client env) w = (Inr client, w0)"
    and "model_path \<notin> set (map JString (fst (verify_run_artifacts env run_id w0)))"
  shows "fst (register_model_from_run env run_id model_path model_name w)
           = Inl (artifact_not_found env model_path (fst (verify_run_artifacts env run_id w0)))
         \<and> isinstance (artifact_not_found env model_path
                         (fst (verify_run_artifacts env run_id w0))) ''ValueError''
         \<and> (calls (snd (register_model_from_run env run_id model_path model_name w))
               = calls w @ [NewClient, NewClient]
            \<or> calls (snd (register_model_from_run env run_id model_path model_name w))
               = calls w @ [NewClient, NewClient, ListArtifacts run_id])"
proof -
  obtain artifacts w1 where v: "verify_run_artifacts env run_id w0 = (artifacts, w1)"
    by (cases "verify_run_artifacts env run_id w0")
  have c0: "calls w0 = calls w @ [NewClient]"
    using assms(1) by (auto simp: client_call_def split: prod.splits)
  have r: "register_model_from_run env run_id model_path model_name w
             = (Inl (artifact_not_found env model_path artifacts),
                logging ERROR ''Error during model registration: %s''
                  [AExn (artifact_not_found env model_path artifacts)] w1)"
    using assms v
    by (simp add: register_model_from_run_def register_model_from_run_try_def try_except_def
          then_do_def raise_def)
  have c1: "calls w1 = calls w0 @ [NewClient] \<or> calls w1 = calls w0 @ [NewClient, ListArtifacts run_id]"
    using verify_run_artifacts_calls [of env run_id w0] v by simp
  show ?thesis
    using r v c0 c1 artifact_not_found_is_value_error [of env model_path artifacts]
    by (auto simp: logging_def)
qed

theorem register_model_from_run_missing_artifact_witness:
  "fst (register_model_from_run ref_env (JString ''run1'') (JString ''weights'')
          ''sentiment_model'' ref_world)
     = Inl (artifact_not_found ref_env (JString ''weights'') [''model''])
   \<and> calls (snd (register_model_from_run ref_env (JString ''run1'') (JString ''weights'')
          ''sentiment_model'' ref_world))
     = [NewClient, NewClient, ListArtifacts (JString ''run1'')]
   \<and> fst (register_model_from_run unlisted_env (JString ''run1'') (JString ''model'')
          ''sentiment_model'' ref_world)
     = Inl (artifact_not_found unlisted_env (JString ''model'') [])"
proof -
  let ?w0 = "ref_world\<lparr>calls := [NewClient], service := 2\<rparr>"
  have a: "client_call NewClient (new_client ref_env) ref_world = (Inr (), ?w0)"
    by (simp add: client_call_def ref_env_def ref_world_def)
  have b: "fst (verify_run_artifacts ref_env (JString ''run1'') ?w0) = [''model'']"
    by code_simp
  have c: "JString ''weights'' \<notin> set (map JString (fst (verify_run_artifacts ref_env
             (JString ''run1'') ?w0)))"
    by (simp add: b)
  have d: "calls ref_world = []"
    by (simp add: ref_world_def)
  have e: "calls (snd (register_model_from_run ref_env (JString ''run1'') (JString ''weights'')
             ''sentiment_model'' ref_world)) \<noteq> [NewClient, NewClient]"
    by code_simp
  from register_model_from_run_missing_artifact [OF a c, of "''sentiment_model''"] b d e
  have 1: "fst (register_model_from_run ref_env (JString ''run1'') (JString ''weights'')
          ''sentiment_model'' ref_world)
     = Inl (artifact_not_found ref_env (JString ''weights'') [''model''])
   \<and> calls (snd (register_model_from_run ref_env (JString ''run1'') (JString ''weights'')
          ''sentiment_model'' ref_world))
     = [NewClient, NewClient, ListArtifacts (JString ''run1'')]"
    by simp
  have a': "client_call NewClient (new_client unlisted_env) ref_world = (Inr (), ?w0)"
    by (simp add: client_call_def unlisted_env_def ref_env_def ref_world_def)
  have b': "fst (verify_run_artifacts unlisted_env (JString ''run1'') ?w0) = []"
    by code_simp
  have c': "JString ''model'' \<notin> set (map JString (fst (verify_run_artifacts unlisted_env
             (JString ''run1'') ?w0)))"
    by (simp add: b')
  from register_model_from_run_missing_artifact [OF a' c', of "''sentiment_model''"] b'
  have 2: "fst (register_model_from_run unlisted_env (JString ''run1'') (JString ''model'')
          ''sentiment_model'' ref_world)
     = Inl (artifact_not_found unlisted_env (JString ''model'') [])"
    by simp
  from 1 2 show ?thesis by simp
qed

text \<open>
  Claim C7. A call of \<^verbatim>\<open>register_model_from_run\<close> or of
  \<^verbatim>\<open>register_model_directly\<close> that returns a version has, as its last call to the
  registry, a successful transition of exactly that version of \<^verbatim>\<open>model_name\<close> to the
  stage \<^verbatim>\<open>Staging\<close> with \<^verbatim>\<open>archive_existing_versions=False\<close>; for
  \<^verbatim>\<open>register_model_from_run\<close> the version is the one \<^verbatim>\<open>mlflow.register_model\<close>
  reported, and for \<^verbatim>\<open>register_model_directly\<close> only the end of the run follows the
  transition. The version returned is a string.
\<close>

theorem registration_stages_returned_version:
  fixes env :: "('s, 'm) env"
  shows "(register_model_from_run env run_id model_path model_name w = (Inr version, w') \<longrightarrow>
      (\<exists>s0 s1 model_details.
          register_model env (''runs:/'' @ py_str env run_id @ ''/'' @ py_str env model_path)
            model_name s0 = (Inr model_details, s1)
          \<and> mv_version model_details = version
          \<and> transition_model_version_stage env model_name version ''Staging'' False s1
              = (Inr (), service w'))
      \<and> calls w' = calls w @ [NewClient, NewClient, ListArtifacts run_id,
            RegisterModel (''runs:/'' @ py_str env run_id @ ''/'' @ py_str env model_path)
              model_name,
            TransitionStage model_name version ''Staging'' False])
   \<and> (register_model_directly env model_file_path model_name w = (Inr version, w') \<longrightarrow>
      (\<exists>s0 s1.
          transition_model_version_stage env model_name version ''Staging'' False s0
            = (Inr (), s1)
          \<and> end_run env ''FINISHED'' s1 = (Inr (), service w'))
      \<and> calls w' = calls w @ [OpenFile model_file_path ''rb'', StartRun,
            LogModel ''model'' model_name, Sleep 2, NewClient,
            SearchModelVersions (''name='' @ sq @ model_name @ sq),
            TransitionStage model_name version ''Staging'' False, EndRun ''FINISHED''])"
proof (intro conjI impI)
  assume "register_model_from_run env run_id model_path model_name w = (Inr version, w')"
  then have b: "register_model_from_run_try env run_id model_path model_name w = (Inr version, w')"
    unfolding register_model_from_run_def by (rule try_except_InrE)
  from register_model_from_run_try_returns [OF b]
  show "\<exists>s0 s1 model_details.
          register_model env (''runs:/'' @ py_str env run_id @ ''/'' @ py_str env model_path)
            model_name s0 = (Inr model_details, s1)
          \<and> mv_version model_details = version
          \<and> transition_model_version_stage env model_name version ''Staging'' False s1
              = (Inr (), service w')"
    by blast
  from register_model_from_run_try_returns [OF b]
  show "calls w' = calls w @ [NewClient, NewClient, ListArtifacts run_id,
            RegisterModel (''runs:/'' @ py_str env run_id @ ''/'' @ py_str env model_path)
              model_name,
            TransitionStage model_name version ''Staging'' False]"
    by blast
next
  assume "register_model_directly env model_file_path model_name w = (Inr version, w')"
  then have b: "register_model_directly_try env model_file_path model_name w = (Inr version, w')"
    unfolding register_model_directly_def by (rule try_except_InrE)
  from register_model_directly_try_returns [OF b]
  show "\<exists>s0 s1.
          transition_model_version_stage env model_name version ''Staging'' False s0
            = (Inr (), s1)
          \<and> end_run env ''FINISHED'' s1 = (Inr (), service w')"
    by blast
  from register_model_directly_try_returns [OF b]
  show "calls w' = calls w @ [OpenFile model_file_path ''rb'', StartRun,
            LogModel ''model'' model_name, Sleep 2, NewClient,
            SearchModelVersions (''name='' @ sq @ model_name @ sq),
            TransitionStage model_name version ''Staging'' False, EndRun ''FINISHED'']"
    by blast
qed

theorem registration_stages_returned_version_witness:
  "(fst (register_model_from_run ref_env (JString ''run1'') (JString ''model'')
           ''sentiment_model'' ref_world) = Inr ''3''
    \<and> calls (snd (register_model_from_run ref_env (JString ''run1'') (JString ''model'')
           ''sentiment_model'' ref_world))
      = [NewClient, NewClient, ListArtifacts (JString ''run1''),
         RegisterModel ''runs:/run1/model'' ''sentiment_model'',
         TransitionStage ''sentiment_model'' ''3'' ''Staging'' False])
   \<and> (fst (register_model_directly ref_env ''./models/model.pkl'' ''sentiment_model'' ref_world)
      = Inr ''3''
    \<and> calls (snd (register_model_directly ref_env ''./models/model.pkl'' ''sentiment_model''
           ref_world))
      = [OpenFile ''./models/model.pkl'' ''rb'', StartRun, LogModel ''model'' ''sentiment_model'',
         Sleep 2, NewClient, SearchModelVersions (''name='' @ sq @ ''sentiment_model'' @ sq),
         TransitionStage ''sentiment_model'' ''3'' ''Staging'' False, EndRun ''FINISHED''])"
proof -
  have a: "fst (register_model_from_run ref_env (JString ''run1'') (JString ''model'')
           ''sentiment_model'' ref_world) = Inr ''3''"
    by code_simp
  have b: "fst (register_model_directly ref_env ''./models/model.pkl'' ''sentiment_model''
           ref_world) = Inr ''3''"
    by code_simp
  have c: "calls ref_world = []"
    by (simp add: ref_world_def)
  from registration_stages_returned_version
         [where env = ref_env and run_id = "JString ''run1''" and model_path = "JString ''model''"
            and model_name = "''sentiment_model''" and w = ref_world and version = "''3''"
            and w' = "snd (register_model_from_run ref_env (JString ''run1'') (JString ''model'')
                        ''sentiment_model'' ref_world)"]
       returned_from_fst [OF a] c
  have 1: "calls (snd (register_model_from_run ref_env (JString ''run1'') (JString ''model'')
           ''sentiment_model'' ref_world))
      = [NewClient, NewClient, ListArtifacts (JString ''run1''),
         RegisterModel ''runs:/run1/model'' ''sentiment_model'',
         TransitionStage ''sentiment_model'' ''3'' ''Staging'' False]"
    by (simp add: py_str_def)
  from registration_stages_returned_version
         [where env = ref_env and model_file_path = "''./models/model.pkl''"
            and model_name = "''sentiment_model''" and w = ref_world and version = "''3''"
            and w' = "snd (register_model_directly ref_env ''./models/model.pkl''
                        ''sentiment_model'' ref_world)"]
       returned_from_fst [OF b] c
  have 2: "calls (snd (register_model_directly ref_env ''./models/model.pkl'' ''sentiment_model''
           ref_world))
      = [OpenFile ''./models/model.pkl'' ''rb'', StartRun, LogModel ''model'' ''sentiment_model'',
         Sleep 2, NewClient, SearchModelVersions (''name='' @ sq @ ''sentiment_model'' @ sq),
         TransitionStage ''sentiment_model'' ''3'' ''Staging'' False, EndRun ''FINISHED'']"
    by simp
  from a b 1 2 show ?thesis by simp
qed

section \<open>Registering from the saved file\<close>

text \<open>
  Claim C9. When the model file is read and unpickled, the run is started, the model
  is logged and the registry is searched for the versions of \<^verbatim>\<open>model_name\<close>:
  if the registry reports no version, \<^verbatim>\<open>register_model_directly\<close> raises the
  \<^verbatim>\<open>ValueError\<close> that says so; if it reports versions that all convert with
  \<^verbatim>\<open>int\<close>, the function returns \<^verbatim>\<open>str\<close> of the greatest of these numbers
  (given that the transition of that version and the end of the run succeed).
\<close>

theorem register_model_directly_latest_version:
  fixes env :: "('s, 'm) env"
  assumes "io_fault env (IoOpen ''rb'') model_file_path = None"
    and "files w model_file_path = Some content"
    and "io_fault env IoRead model_file_path = None"
    and "pickle_loads env content = Inr model"
    and "start_run env (service w) = (Inr r, s1)"
    and "log_model env model ''model'' model_name s1 = (Inr u, s2)"
    and "new_client env s2 = (Inr u, s3)"
    and "search_model_versions env (''name='' @ sq @ model_name @ sq) s3
           = (Inr model_versions, s4)"
  shows "(model_versions = [] \<longrightarrow> end_run env ''FAILED'' s4 = (Inr u, s5) \<longrightarrow>
            fst (register_model_directly env model_file_path model_name w)
              = Inl (no_versions_found model_name)
            \<and> isinstance (no_versions_found model_name) ''ValueError'')
         \<and> (model_versions \<noteq> [] \<longrightarrow>
            (\<forall>mv\<in>set model_versions. builtin_int env (mv_version mv) = Inr (number mv)) \<longrightarrow>
            transition_model_version_stage env model_name
              (builtin_str env (JInt (Max (number ` set model_versions)))) ''Staging'' False s4
              = (Inr u, s5) \<longrightarrow>
            end_run env ''FINISHED'' s5 = (Inr u, s6) \<longrightarrow>
            fst (register_model_directly env model_file_path model_name w)
              = Inr (builtin_str env (JInt (Max (number ` set model_versions)))))"
proof (intro conjI impI)
  assume e: "model_versions = []" and f: "end_run env ''FAILED'' s4 = (Inr u, s5)"
  show "fst (register_model_directly env model_file_path model_name w)
          = Inl (no_versions_found model_name)"
    using assms e f
    by (simp add: register_model_directly_def register_model_directly_try_def try_except_def
          with_run_def then_do_def client_call_def open_read_def record_call_def lift_def
          effect_def raise_def logging_def Let_def)
  show "isinstance (no_versions_found model_name) ''ValueError''"
    by (rule no_versions_found_is_value_error)
next
  assume ne: "model_versions \<noteq> []"
    and n: "\<forall>mv\<in>set model_versions. builtin_int env (mv_version mv) = Inr (number mv)"
    and t: "transition_model_version_stage env model_name
              (builtin_str env (JInt (Max (number ` set model_versions)))) ''Staging'' False s4
              = (Inr u, s5)"
    and f: "end_run env ''FINISHED'' s5 = (Inr u, s6)"
  have i: "ints_of env (map mv_version model_versions) = Inr (map number model_versions)"
    using n by (rule ints_of_versions)
  have m: "py_max (map number model_versions) = Inr (Max (number ` set model_versions))"
    using ne py_max_is_Max [of "map number model_versions"] by simp
  show "fst (register_model_directly env model_file_path model_name w)
          = Inr (builtin_str env (JInt (Max (number ` set model_versions))))"
    using assms ne i m t f
    by (simp add: register_model_directly_def register_model_directly_try_def try_except_def
          with_run_def then_do_def client_call_def open_read_def record_call_def lift_def
          effect_def ret_def logging_def Let_def)
qed

theorem register_model_directly_latest_version_witness:
  "fst (register_model_directly forgetful_env ''./models/model.pkl'' ''sentiment_model''
          ref_world)
     = Inl (no_versions_found ''sentiment_model'')
   \<and> fst (register_model_directly ref_env ''./models/model.pkl'' ''sentiment_model'' ref_world)
     = Inr ''3''"
proof -
  let ?mvs = "[\<lparr>mv_name = ''sentiment_model'', mv_version = ''1''\<rparr>,
               \<lparr>mv_name = ''sentiment_model'', mv_version = ''2''\<rparr>,
               \<lparr>mv_name = ''sentiment_model'', mv_version = ''3''\<rparr>]"
  have a: "io_fault ref_env (IoOpen ''rb'') ''./models/model.pkl'' = None"
    and c: "io_fault ref_env IoRead ''./models/model.pkl'' = None"
    and d: "pickle_loads ref_env ''pickled-model'' = Inr ''pickled-model''"
    and e: "start_run ref_env (service ref_world) = (Inr \<lparr>run_info_run_id = ''run2''\<rparr>, 2)"
    and f: "log_model ref_env ''pickled-model'' ''model'' ''sentiment_model'' 2 = (Inr (), 3)"
    and g: "new_client ref_env 3 = (Inr (), 3)"
    by (simp_all add: ref_env_def ref_world_def)
  have b: "files ref_world ''./models/model.pkl'' = Some ''pickled-model''"
    by (simp add: ref_world_def)
  have h: "search_model_versions ref_env (''name='' @ sq @ ''sentiment_model'' @ sq) 3
             = (Inr ?mvs, 3)"
    by code_simp
  have ne: "?mvs \<noteq> []"
    by simp
  have n: "\<forall>mv\<in>set ?mvs. builtin_int ref_env (mv_version mv) = Inr (version_number mv)"
    by code_simp
  have mx: "Max (version_number ` set ?mvs) = 3"
    by code_simp
  have s: "builtin_str ref_env (JInt 3) = ''3''"
    by code_simp
  have t: "transition_model_version_stage ref_env ''sentiment_model''
             (builtin_str ref_env (JInt (Max (version_number ` set ?mvs)))) ''Staging'' False 3
             = (Inr (), 3)"
    by (simp add: ref_env_def)
  have fin: "end_run ref_env ''FINISHED'' 3 = (Inr (), 3)"
    by (simp add: ref_env_def)
  from register_model_directly_latest_version [OF a b c d e f g h, of 3 version_number 3]
       ne n t fin mx s
  have 1: "fst (register_model_directly ref_env ''./models/model.pkl'' ''sentiment_model''
             ref_world) = Inr ''3''"
    by simp
  have a': "io_fault forgetful_env (IoOpen ''rb'') ''./models/model.pkl'' = None"
    and c': "io_fault forgetful_env IoRead ''./models/model.pkl'' = None"
    and d': "pickle_loads forgetful_env ''pickled-model'' = Inr ''pickled-model''"
    and e': "start_run forgetful_env (service ref_world)
               = (Inr \<lparr>run_info_run_id = ''run2''\<rparr>, 2)"
    and f': "log_model forgetful_env ''pickled-model'' ''model'' ''sentiment_model'' 2
               = (Inr (), 3)"
    and g': "new_client forgetful_env 3 = (Inr (), 3)"
    and h': "search_model_versions forgetful_env (''name='' @ sq @ ''sentiment_model'' @ sq) 3
               = (Inr [], 3)"
    and fin': "end_run forgetful_env ''FAILED'' 3 = (Inr (), 3)"
    by (simp_all add: forgetful_env_def ref_env_def ref_world_def)
  from register_model_directly_latest_version [OF a' b c' d' e' f' g' h', of 3 version_number 3]
       fin'
  have 2: "fst (register_model_directly forgetful_env ''./models/model.pkl'' ''sentiment_model''
             ref_world) = Inl (no_versions_found ''sentiment_model'')"
    by simp
  from 1 2 show ?thesis by simp
qed


end
